theory Spec2Isabelle
  imports Complex_Main
begin

section \<open>Virtual Slope depth controller\<close>

text \<open>
  A shallow embedding of the Virtual Slope depth controller: the backseat setpoint
  command (\<^verbatim>\<open>src/backseat_api_overload.py\<close>), the depth controller
  (\<^verbatim>\<open>src/VS_controller.py\<close>), the hand-over of the step in the VS loop
  (\<^verbatim>\<open>main.py\<close>) and the navigation telegram parser (\<^verbatim>\<open>src/DesBridge_api.py\<close>).

  The depths and steps of the controller are modelled as \<^typ>\<open>real\<close> with exact
  arithmetic: the rounding of Python's floats, their infinities and NaN are outside that
  part of the model, and no property below depends on how a sum, product or quotient is
  rounded. The argument of \<^verbatim>\<open>send_z_command\<close>, to which only comparisons are applied,
  is a float with its infinities and NaN. Logging is dropped. \<^verbatim>\<open>time.time()\<close> is a
  parameter \<open>now\<close>, read once per tick.
\<close>

subsection \<open>Configuration\<close>

text \<open>The fields of \<^verbatim>\<open>config.Config\<close> that the modelled functions read.\<close>

record config =
  min_depth :: real
  max_depth :: real
  altitude_threshold_level_cfg :: real
  altitude_threshold_ascend_cfg :: real
  wait_time_cfg :: real
  transition_time :: nat
  command_period :: real
  max_angle :: real

subsection \<open>Backseat client: \<^verbatim>\<open>send_z_command\<close>\<close>

text \<open>
  A Python float as \<^verbatim>\<open>send_z_command\<close> sees it: a number, one of the two infinities, or
  NaN. The function only compares and passes the value on, so rounding plays no part.
\<close>

datatype pyfloat = Finite real | PosInf | NegInf | NaN

text \<open>The comparison \<^verbatim>\<open><\<close> of floats; it is false as soon as one side is NaN.\<close>

fun float_less :: "pyfloat \<Rightarrow> pyfloat \<Rightarrow> bool" where
  "float_less NaN y = False"
| "float_less x NaN = False"
| "float_less (Finite a) (Finite b) = (a < b)"
| "float_less (Finite a) PosInf = True"
| "float_less (Finite a) NegInf = False"
| "float_less PosInf y = False"
| "float_less NegInf NegInf = False"
| "float_less NegInf y = True"

text \<open>
  The module variable \<^verbatim>\<open>_last_valid_depth\<close> is passed in and returned. The outcome of
  \<^verbatim>\<open>requests.post\<close> is the parameter \<open>http_ok\<close>: \<open>True\<close> when the response has status
  200, \<open>False\<close> for any other status and for an exception (which the function catches).
  \<open>posted\<close> is the \<^verbatim>\<open>zSetpoint\<close> of the request, \<open>None\<close> when no request is issued.
  The configured bounds are numbers; \<^verbatim>\<open>z_value > max_depth\<close> is \<^verbatim>\<open>max_depth < z_value\<close>.
\<close>

record send_outcome =
  success :: bool
  posted :: "pyfloat option"
  last_valid_depth :: "pyfloat option"

definition send_z_command :: "config \<Rightarrow> bool \<Rightarrow> pyfloat option \<Rightarrow> pyfloat \<Rightarrow> send_outcome" where
  "send_z_command cfg http_ok lv z_value =
     (if float_less z_value (Finite (min_depth cfg)) \<or> float_less (Finite (max_depth cfg)) z_value then
        (case lv of
           Some v \<Rightarrow> \<lparr>success = http_ok, posted = Some v, last_valid_depth = lv\<rparr>
         | None \<Rightarrow> \<lparr>success = False, posted = None, last_valid_depth = lv\<rparr>)
      else \<lparr>success = http_ok, posted = Some z_value, last_valid_depth = Some z_value\<rparr>)"

text \<open>
  A sequence of calls, each with its own HTTP outcome, threading \<^verbatim>\<open>_last_valid_depth\<close>;
  the result is the list of setpoints that were POSTed, in order.
\<close>

fun send_all :: "config \<Rightarrow> pyfloat option \<Rightarrow> (pyfloat \<times> bool) list \<Rightarrow> pyfloat list" where
  "send_all cfg lv [] = []"
| "send_all cfg lv ((z, ok) # rest) =
     (let r = send_z_command cfg ok lv z
      in (case posted r of None \<Rightarrow> [] | Some v \<Rightarrow> [v]) @ send_all cfg (last_valid_depth r) rest)"

text \<open>
  The envelope \<open>[min_depth, max_depth]\<close>, for a depth of the controller and for a float:
  an infinity or NaN lies in no interval of numbers.
\<close>

definition in_envelope :: "config \<Rightarrow> real \<Rightarrow> bool" where
  "in_envelope cfg d \<longleftrightarrow> min_depth cfg \<le> d \<and> d \<le> max_depth cfg"

definition float_in_envelope :: "config \<Rightarrow> pyfloat \<Rightarrow> bool" where
  "float_in_envelope cfg z = (case z of Finite d \<Rightarrow> in_envelope cfg d | _ \<Rightarrow> False)"

definition cfg0 :: config where
  "cfg0 = \<lparr>min_depth = 0, max_depth = 100, altitude_threshold_level_cfg = 5,
           altitude_threshold_ascend_cfg = 3, wait_time_cfg = 2, transition_time = 5,
           command_period = 1, max_angle = 30\<rparr>"

subsection \<open>Depth controller: data\<close>

datatype State = NORMAL | HOLD | ASCEND | WAIT | RETURN

text \<open>
  The attributes of \<^verbatim>\<open>DepthController\<close>. \<open>step_iterator\<close> is the part of
  \<open>transition_list\<close> that \<^verbatim>\<open>next\<close> has not yet returned.
\<close>

record DepthController =
  current_z :: real
  end_z :: real
  step :: real
  end_z_reached :: bool
  target_step :: real
  current_step :: real
  max_angle_step :: real
  trajectory_down :: bool
  altitude_threshold_level :: real
  altitude_threshold_ascend :: real
  wait_time :: real
  command_depth :: real
  state :: State
  state_start_time :: "real option"
  wait_from_ascend :: bool
  planned_z :: real
  error_compensation_active :: bool
  original_target_step :: real
  original_previous_step :: real
  transition_list :: "real list"
  step_iterator :: "real list"
  step_transition_active :: bool

text \<open>
  \<^verbatim>\<open>numpy.linspace(start, stop, num)\<close> with the default \<^verbatim>\<open>endpoint=True\<close>: no samples
  for \<open>num = 0\<close>, the single sample \<open>start\<close> for \<open>num = 1\<close>, and otherwise \<open>num\<close>
  evenly spaced samples from \<open>start\<close> to \<open>stop\<close>.
\<close>

definition linspace :: "real \<Rightarrow> real \<Rightarrow> nat \<Rightarrow> real list" where
  "linspace start stop num =
     (if num = 0 then []
      else if num = 1 then [start]
      else map (\<lambda>i. start + real i * ((stop - start) / real (num - 1))) [0..<num])"

text \<open>\<^verbatim>\<open>DepthController.__init__\<close>.\<close>

definition init :: "config \<Rightarrow> real \<Rightarrow> real \<Rightarrow> real \<Rightarrow> real \<Rightarrow> bool \<Rightarrow> real \<Rightarrow> DepthController" where
  "init cfg start_z end_z' step' max_angle_step' trajectory_down' previous_step =
     \<lparr>current_z = start_z,
      end_z = end_z',
      step = step',
      end_z_reached = False,
      target_step = step',
      current_step = previous_step,
      max_angle_step = max_angle_step',
      trajectory_down = trajectory_down',
      altitude_threshold_level = altitude_threshold_level_cfg cfg,
      altitude_threshold_ascend = altitude_threshold_ascend_cfg cfg,
      wait_time = wait_time_cfg cfg,
      command_depth = start_z,
      state = NORMAL,
      state_start_time = None,
      wait_from_ascend = False,
      planned_z = start_z,
      error_compensation_active = False,
      original_target_step = step',
      original_previous_step = previous_step,
      transition_list = linspace previous_step step' (transition_time cfg),
      step_iterator = linspace previous_step step' (transition_time cfg),
      step_transition_active = (previous_step \<noteq> step')\<rparr>"

subsection \<open>Depth controller: step transition and error compensation\<close>

text \<open>
  \<^verbatim>\<open>_calculate_error_compensation\<close>, in exact arithmetic: the products, differences
  and quotients are not rounded, so the number of remaining steps can differ from the one
  the floats give. No property below depends on that rounding.
\<close>

definition calculate_error_compensation :: "DepthController \<Rightarrow> DepthController" where
  "calculate_error_compensation c =
     (let smoothed_movement = sum_list (transition_list c);
          linear_movement = original_target_step c * real (length (transition_list c));
          accumulated_error = linear_movement - smoothed_movement;
          total_trajectory = end_z c - planned_z c;
          remaining_trajectory = total_trajectory - linear_movement
      in if \<bar>remaining_trajectory\<bar> > 0 \<and> \<bar>original_target_step c\<bar> > 0 then
           (let remaining_steps = \<lceil>\<bar>remaining_trajectory / original_target_step c\<bar>\<rceil>
            in if remaining_steps > 0 then
                 (let error_compensation_per_step = accumulated_error / real_of_int remaining_steps;
                      new_step = original_target_step c + error_compensation_per_step
                  in c\<lparr>current_step := new_step, target_step := new_step,
                        error_compensation_active := True\<rparr>)
               else c\<lparr>current_step := original_target_step c\<rparr>)
         else c\<lparr>current_step := original_target_step c\<rparr>)"

text \<open>
  \<^verbatim>\<open>_update_step_transition\<close>: \<^verbatim>\<open>next(self.step_iterator)\<close> returns the head of what
  is left, and \<^verbatim>\<open>StopIteration\<close> is the empty case.
\<close>

definition update_step_transition :: "DepthController \<Rightarrow> DepthController" where
  "update_step_transition c =
     (if \<not> step_transition_active c then c
      else (case step_iterator c of
              x # rest \<Rightarrow> c\<lparr>current_step := x, step_iterator := rest\<rparr>
            | [] \<Rightarrow> calculate_error_compensation (c\<lparr>step_transition_active := False\<rparr>)))"

subsection \<open>Depth controller: safety automaton\<close>

text \<open>\<^verbatim>\<open>_on_enter_state\<close>; the \<^verbatim>\<open>RETURN\<close> branch only logs.\<close>

definition on_enter_state :: "DepthController \<Rightarrow> State \<Rightarrow> State \<Rightarrow> real \<Rightarrow> DepthController" where
  "on_enter_state c st from_state now =
     (case st of
        ASCEND \<Rightarrow> c\<lparr>state_start_time := None, command_depth := current_z c\<rparr>
      | HOLD \<Rightarrow> c\<lparr>state_start_time := None\<rparr>
      | WAIT \<Rightarrow> c\<lparr>state_start_time := Some now, wait_from_ascend := (from_state = ASCEND)\<rparr>
      | RETURN \<Rightarrow> c
      | NORMAL \<Rightarrow> c\<lparr>state_start_time := None\<rparr>)"

text \<open>\<^verbatim>\<open>_set_state\<close>.\<close>

definition set_state :: "DepthController \<Rightarrow> State \<Rightarrow> real \<Rightarrow> DepthController" where
  "set_state c new_state now =
     (if state c = new_state then c
      else (let old_state = state c
            in on_enter_state (c\<lparr>state := new_state\<rparr>) new_state old_state now))"

text \<open>\<^verbatim>\<open>_wait_finished\<close> and \<^verbatim>\<open>_return_caught_vs\<close>.\<close>

definition wait_finished :: "DepthController \<Rightarrow> real \<Rightarrow> bool" where
  "wait_finished c now =
     (case state_start_time c of
        None \<Rightarrow> False
      | Some t \<Rightarrow> now - t \<ge> wait_time c)"

definition return_caught_vs :: "DepthController \<Rightarrow> bool" where
  "return_caught_vs c \<longleftrightarrow> command_depth c \<ge> current_z c"

text \<open>\<^verbatim>\<open>_handle_transitions\<close>.\<close>

definition handle_transitions :: "DepthController \<Rightarrow> real option \<Rightarrow> real \<Rightarrow> DepthController" where
  "handle_transitions c altitude now =
     (case altitude of
        None \<Rightarrow> (if state c \<noteq> NORMAL then set_state c NORMAL now else c)
      | Some a \<Rightarrow>
          if a < altitude_threshold_ascend c then set_state c ASCEND now
          else if trajectory_down c \<and> a < altitude_threshold_level c then set_state c HOLD now
          else if state c = ASCEND then set_state c WAIT now
          else if state c = HOLD then set_state c WAIT now
          else if state c = WAIT then (if wait_finished c now then set_state c RETURN now else c)
          else if state c = RETURN then (if return_caught_vs c then set_state c NORMAL now else c)
          else c)"

subsection \<open>Depth controller: per-state behaviour\<close>

text \<open>
  Each state function returns the controller and the depth it hands to
  \<^verbatim>\<open>_send_command\<close>; the result of the send is not used by the controller.
\<close>

definition clamp_depth :: "config \<Rightarrow> real \<Rightarrow> real" where
  "clamp_depth cfg depth = max (min_depth cfg) (min depth (max_depth cfg))"

definition state_normal :: "DepthController \<Rightarrow> DepthController \<times> real" where
  "state_normal c =
     (let (command_z, c1) =
        (if end_z_reached c then (end_z c, c)
         else (let next_z = current_z c + current_step c
               in if trajectory_down c then
                    (if next_z \<ge> end_z c
                     then (end_z c, c\<lparr>current_z := end_z c, end_z_reached := True\<rparr>)
                     else (current_z c, c))
                  else
                    (if next_z \<le> end_z c
                     then (end_z c, c\<lparr>current_z := end_z c, end_z_reached := True\<rparr>)
                     else (current_z c, c))))
      in (c1\<lparr>command_depth := command_z\<rparr>, command_z))"

definition state_hold :: "DepthController \<Rightarrow> DepthController \<times> real" where
  "state_hold c = (c, command_depth c)"

definition state_ascend :: "config \<Rightarrow> DepthController \<Rightarrow> DepthController \<times> real" where
  "state_ascend cfg c =
     (let d = clamp_depth cfg (command_depth c - max_angle_step c)
      in (c\<lparr>command_depth := d\<rparr>, d))"

definition state_wait :: "config \<Rightarrow> DepthController \<Rightarrow> DepthController \<times> real" where
  "state_wait cfg c =
     (if wait_from_ascend c then
        (let d = clamp_depth cfg (command_depth c - max_angle_step c)
         in (c\<lparr>command_depth := d\<rparr>, d))
      else (c, command_depth c))"

definition state_return :: "config \<Rightarrow> DepthController \<Rightarrow> real \<Rightarrow> DepthController \<times> real" where
  "state_return cfg c now =
     (if trajectory_down c then
        (let next_return_depth = clamp_depth cfg (command_depth c + max_angle_step c)
         in if next_return_depth \<ge> current_z c
            then (c\<lparr>command_depth := current_z c\<rparr>, current_z c)
            else (c\<lparr>command_depth := next_return_depth\<rparr>, next_return_depth))
      else
        ((if current_z c \<le> command_depth c then set_state c NORMAL now else c), command_depth c))"

text \<open>\<^verbatim>\<open>_execute_current_state\<close>.\<close>

definition execute_current_state :: "config \<Rightarrow> DepthController \<Rightarrow> real \<Rightarrow> DepthController \<times> real" where
  "execute_current_state cfg c now =
     (case state c of
        NORMAL \<Rightarrow> state_normal c
      | HOLD \<Rightarrow> state_hold c
      | ASCEND \<Rightarrow> state_ascend cfg c
      | WAIT \<Rightarrow> state_wait cfg c
      | RETURN \<Rightarrow> state_return cfg c now)"

text \<open>
  \<^verbatim>\<open>_advance_vs\<close>; its \<^verbatim>\<open>background\<close> argument only selects a log line. The sum is
  exact, where the floats round it; no property below depends on that rounding.
\<close>

definition advance_vs :: "DepthController \<Rightarrow> DepthController" where
  "advance_vs c =
     (if end_z_reached c then c
      else (let end_reached = (if trajectory_down c then current_z c \<ge> end_z c
                               else current_z c \<le> end_z c)
            in if end_reached then c\<lparr>current_z := end_z c, end_z_reached := True\<rparr>
               else c\<lparr>current_z := current_z c + current_step c\<rparr>))"

subsection \<open>Depth controller: the tick\<close>

text \<open>
  \<^verbatim>\<open>DepthController.update\<close>. \<open>tick\<close> gives the controller after the call together with
  the depth sent in that tick; \<open>update\<close> is the controller alone, and the Python return
  value is its \<open>end_z_reached\<close>.
\<close>

definition tick :: "config \<Rightarrow> DepthController \<Rightarrow> real option \<Rightarrow> real \<Rightarrow> DepthController \<times> real" where
  "tick cfg c altitude now =
     (let c1 = update_step_transition c;
          c2 = handle_transitions c1 altitude now;
          active_state = state c2;
          (c3, sent) = execute_current_state cfg c2 now;
          c4 = advance_vs c3;
          c5 = (if active_state = RETURN \<and> \<not> trajectory_down c4
                then (if current_z c4 \<le> command_depth c4 then set_state c4 NORMAL now else c4)
                else c4)
      in (c5, sent))"

definition update :: "config \<Rightarrow> DepthController \<Rightarrow> real option \<Rightarrow> real \<Rightarrow> DepthController" where
  "update cfg c altitude now = fst (tick cfg c altitude now)"

text \<open>Successive calls of \<open>update\<close>, one per (altitude, time) pair.\<close>

fun run :: "config \<Rightarrow> DepthController \<Rightarrow> (real option \<times> real) list \<Rightarrow> DepthController" where
  "run cfg c [] = c"
| "run cfg c ((altitude, now) # rest) = run cfg (update cfg c altitude now) rest"

subsection \<open>The transition rules as the specification words them\<close>

text \<open>
  The rules of the state automaton in the order the specification gives them, as a function
  of the current state, the altitude \<open>A\<close>, the two thresholds, the direction of the
  trajectory, and the two conditions "the wait is over" and "the rejoin condition holds".
  A comparison with an absent altitude is false.
\<close>

definition below :: "real option \<Rightarrow> real \<Rightarrow> bool" where
  "below A T = (case A of None \<Rightarrow> False | Some a \<Rightarrow> a < T)"

definition spec_transition ::
  "State \<Rightarrow> real option \<Rightarrow> real \<Rightarrow> real \<Rightarrow> bool \<Rightarrow> bool \<Rightarrow> bool \<Rightarrow> State" where
  "spec_transition s A T_asc T_lvl down wait_over rejoin =
     (if A = None \<and> s \<noteq> NORMAL then NORMAL
      else if below A T_asc then ASCEND
      else if down \<and> below A T_lvl then HOLD
      else (case s of
              ASCEND \<Rightarrow> WAIT
            | HOLD \<Rightarrow> WAIT
            | WAIT \<Rightarrow> (if wait_over then RETURN else WAIT)
            | RETURN \<Rightarrow> (if rejoin then NORMAL else RETURN)
            | NORMAL \<Rightarrow> NORMAL))"

subsection \<open>Invariant of the end flag\<close>

text \<open>Once the end of the leg is flagged, the planned depth is the end depth.\<close>

definition end_inv :: "DepthController \<Rightarrow> bool" where
  "end_inv c \<longleftrightarrow> (end_z_reached c \<longrightarrow> current_z c = end_z c)"

subsection \<open>The controller as it executes its state\<close>

text \<open>
  The controller inside a tick, after the step transition and the state transitions and
  before the state is executed; its state is the \<^verbatim>\<open>active_state\<close> of \<^verbatim>\<open>update\<close>.
\<close>

definition entering :: "DepthController \<Rightarrow> real option \<Rightarrow> real \<Rightarrow> DepthController" where
  "entering c A now = handle_transitions (update_step_transition c) A now"

subsection \<open>The VS loop of \<^verbatim>\<open>main.py\<close>\<close>

text \<open>
  \<^verbatim>\<open>calculate_step\<close>; a zero distance raises \<^verbatim>\<open>ZeroDivisionError\<close>, the value \<open>None\<close>.
\<close>

definition calculate_step :: "config \<Rightarrow> real \<Rightarrow> real \<Rightarrow> real \<Rightarrow> real \<Rightarrow> real option" where
  "calculate_step cfg start_z end_z' speed distance =
     (if distance = 0 then None
      else Some ((((end_z' - start_z) * speed) / distance) * command_period cfg))"

text \<open>
  The entries of the subphase dictionary that enter the controller; the four coordinates
  enter only through \<open>distance\<close>, the result of \<^verbatim>\<open>calculate_distance_meters\<close>, which
  is a parameter of the model. Of \<^verbatim>\<open>PhaseManager\<close> the loop touches \<open>last_step\<close> only.
\<close>

record subphase_data =
  START_Z :: real
  END_Z :: real
  SPEED :: real

record PhaseManager =
  last_step :: real

text \<open>
  One iteration of the \<^verbatim>\<open>while True\<close> loop either completes a call of \<open>update\<close>, or an
  exception leaves the loop (\<open>Raise\<close>), or the coroutine is cancelled at one of its suspension
  points (\<open>Cancel\<close>). The loop has no other exit; a finite list of events that ends
  without one of these is a loop that is still running. Exits are taken between calls of
  \<open>update\<close>.
\<close>

datatype loop_event = Tick "real option" real | Raise | Cancel

datatype loop_exit = ExitError | ExitCancelled | StillRunning

fun iterations :: "config \<Rightarrow> DepthController \<Rightarrow> loop_event list \<Rightarrow> loop_exit \<times> DepthController" where
  "iterations cfg c [] = (StillRunning, c)"
| "iterations cfg c (Tick altitude now # rest) = iterations cfg (update cfg c altitude now) rest"
| "iterations cfg c (Raise # rest) = (ExitError, c)"
| "iterations cfg c (Cancel # rest) = (ExitCancelled, c)"

text \<open>
  \<^verbatim>\<open>virtual_slope_loop\<close>: the result is the way the loop was left, the controller at that
  moment and the manager after the \<^verbatim>\<open>finally\<close> block, which runs on every exit from the
  \<^verbatim>\<open>try\<close>. The result is \<open>None\<close> when \<^verbatim>\<open>calculate_step\<close> raises, before a controller
  exists.
\<close>

definition virtual_slope_loop ::
  "config \<Rightarrow> subphase_data \<Rightarrow> real \<Rightarrow> real \<Rightarrow> PhaseManager option \<Rightarrow> loop_event list \<Rightarrow>
   (loop_exit \<times> DepthController \<times> PhaseManager option) option" where
  "virtual_slope_loop cfg plan distance previous_step manager events =
     (case calculate_step cfg (START_Z plan) (END_Z plan) (SPEED plan) distance of
        None \<Rightarrow> None
      | Some step' \<Rightarrow>
          (let max_angle_step' = SPEED plan * sin (max_angle cfg * pi / 180) * command_period cfg;
               trajectory_down' = (END_Z plan > START_Z plan);
               controller = init cfg (START_Z plan) (END_Z plan) step' max_angle_step'
                              trajectory_down' previous_step;
               (exit, c) = iterations cfg controller events
           in Some (exit, c,
                (if exit = StillRunning then manager
                 else (case manager of
                         None \<Rightarrow> None
                       | Some m \<Rightarrow> Some (m\<lparr>last_step := current_step c\<rparr>))))))"

text \<open>A sample leg: ten metres down over fifty metres of track at 1 m/s.\<close>

definition plan0 :: subphase_data where
  "plan0 = \<lparr>START_Z = 10, END_Z = 20, SPEED = 1\<rparr>"

subsection \<open>Navigation telegrams: \<^verbatim>\<open>DesBridge_api.py\<close>\<close>

text \<open>
  \<^verbatim>\<open>NavigationData\<close>, every field optional. The type \<open>'f\<close> of the values is the type
  of what \<^verbatim>\<open>float\<close> returns and is left open. The attributes \<^verbatim>\<open>p\<close>, \<^verbatim>\<open>q\<close> and \<^verbatim>\<open>r\<close>
  are named \<open>nav_p\<close>, \<open>nav_q\<close> and \<open>nav_r\<close> here.
\<close>

record 'f NavigationData =
  latitude :: "'f option"
  longitude :: "'f option"
  sigmapos :: "'f option"
  depth :: "'f option"
  altitude :: "'f option"
  seabed :: "'f option"
  north_speed :: "'f option"
  east_speed :: "'f option"
  down_speed :: "'f option"
  up_speed :: "'f option"
  u_speed :: "'f option"
  v_speed :: "'f option"
  w_speed :: "'f option"
  water_north_speed :: "'f option"
  water_east_speed :: "'f option"
  water_down_speed :: "'f option"
  water_up_speed :: "'f option"
  water_u_speed :: "'f option"
  water_v_speed :: "'f option"
  water_w_speed :: "'f option"
  current_north_speed :: "'f option"
  current_east_speed :: "'f option"
  heading :: "'f option"
  roll :: "'f option"
  pitch :: "'f option"
  yaw_rate :: "'f option"
  roll_rate :: "'f option"
  pitch_rate :: "'f option"
  nav_p :: "'f option"
  nav_q :: "'f option"
  nav_r :: "'f option"
  ax :: "'f option"
  ay :: "'f option"
  az :: "'f option"

text \<open>
  \<^verbatim>\<open>str.split(sep)\<close> for a one-character separator: the pieces between the
  separators, at least one piece.
\<close>

fun split_on :: "char \<Rightarrow> string \<Rightarrow> string list" where
  "split_on sep [] = [[]]"
| "split_on sep (ch # rest) =
     (if ch = sep then [] # split_on sep rest
      else (case split_on sep rest of
              [] \<Rightarrow> [[ch]]
            | w # ws \<Rightarrow> (ch # w) # ws))"

text \<open>
  \<^verbatim>\<open>str.upper()\<close> and \<^verbatim>\<open>str.strip()\<close> on the ASCII strings that
  \<^verbatim>\<open>decode('ascii', errors='ignore')\<close> produces: the letters \<open>a\<close> to \<open>z\<close> are raised, and
  the white space characters are the codes 9 to 13, 28 to 31 and 32.
\<close>

definition upper_char :: "char \<Rightarrow> char" where
  "upper_char ch =
     (case map_of (zip ''abcdefghijklmnopqrstuvwxyz'' ''ABCDEFGHIJKLMNOPQRSTUVWXYZ'') ch of
        None \<Rightarrow> ch
      | Some capital \<Rightarrow> capital)"

definition upper :: "string \<Rightarrow> string" where
  "upper s = map upper_char s"

definition is_space :: "char \<Rightarrow> bool" where
  "is_space ch =
     (let n = (of_char ch :: nat) in (9 \<le> n \<and> n \<le> 13) \<or> (28 \<le> n \<and> n \<le> 32))"

definition strip :: "string \<Rightarrow> string" where
  "strip s = rev (dropWhile is_space (rev (dropWhile is_space s)))"

text \<open>
  \<^verbatim>\<open>safe_float\<close>. Python's \<^verbatim>\<open>float\<close> is the parameter \<open>float_of\<close>, with \<open>None\<close> for a
  \<^verbatim>\<open>ValueError\<close>; the argument is always a string, so no \<^verbatim>\<open>TypeError\<close> arises.
\<close>

definition safe_float :: "(string \<Rightarrow> 'f option) \<Rightarrow> string \<Rightarrow> 'f option" where
  "safe_float float_of value =
     (if value = [] \<or> upper value = ''UNDEF'' \<or> strip value = [] then None
      else float_of value)"

text \<open>
  The recurring \<^verbatim>\<open>self.safe_float(fields[k]) if len(fields) > k else None\<close>; the
  list \<^verbatim>\<open>fields\<close> of the source is \<open>field_list\<close> here.
\<close>

definition field :: "(string \<Rightarrow> 'f option) \<Rightarrow> string list \<Rightarrow> nat \<Rightarrow> 'f option" where
  "field float_of field_list k =
     (if length field_list > k then safe_float float_of (field_list ! k) else None)"

text \<open>
  The first steps of \<^verbatim>\<open>parse_navigation\<close>: the checksum is cut off at the first
  \<open>*\<close> and the rest is split at the commas. The first piece is the tag of the telegram,
  the others are its data fields.
\<close>

definition telegram_fields :: "string \<Rightarrow> string list" where
  "telegram_fields nav_message =
     (let msg = (if CHR ''*'' \<in> set nav_message
                 then (case split_on CHR ''*'' nav_message of [] \<Rightarrow> [] | w # ws \<Rightarrow> w)
                 else nav_message)
      in split_on CHR '','' msg)"

definition data_fields :: "string \<Rightarrow> string list" where
  "data_fields nav_message = tl (telegram_fields nav_message)"

text \<open>
  \<^verbatim>\<open>parse_navigation\<close>: the frame that is stored, or \<open>None\<close> when the line is dropped.
\<close>

definition parse_navigation :: "(string \<Rightarrow> 'f option) \<Rightarrow> string \<Rightarrow> 'f NavigationData option" where
  "parse_navigation float_of nav_message =
     (let field_list = telegram_fields nav_message
      in if length field_list < 10 then None
         else Some
           \<lparr>latitude = field float_of field_list 1,
            longitude = field float_of field_list 2,
            sigmapos = field float_of field_list 3,
            depth = field float_of field_list 4,
            altitude = field float_of field_list 5,
            seabed = field float_of field_list 6,
            north_speed = field float_of field_list 7,
            east_speed = field float_of field_list 8,
            down_speed = field float_of field_list 9,
            up_speed = field float_of field_list 10,
            u_speed = field float_of field_list 11,
            v_speed = field float_of field_list 12,
            w_speed = field float_of field_list 13,
            water_north_speed = field float_of field_list 14,
            water_east_speed = field float_of field_list 15,
            water_down_speed = field float_of field_list 16,
            water_up_speed = field float_of field_list 17,
            water_u_speed = field float_of field_list 18,
            water_v_speed = field float_of field_list 19,
            water_w_speed = field float_of field_list 20,
            current_north_speed = field float_of field_list 21,
            current_east_speed = field float_of field_list 22,
            heading = field float_of field_list 23,
            roll = field float_of field_list 24,
            pitch = field float_of field_list 25,
            yaw_rate = field float_of field_list 26,
            roll_rate = field float_of field_list 27,
            pitch_rate = field float_of field_list 28,
            nav_p = field float_of field_list 29,
            nav_q = field float_of field_list 30,
            nav_r = field float_of field_list 31,
            ax = field float_of field_list 32,
            ay = field float_of field_list 33,
            az = field float_of field_list 34\<rparr>)"

text \<open>
  The effect on \<^verbatim>\<open>latest_navigation\<close>, the stored snapshot: replaced by the frame of a
  published line, untouched by a dropped one.
\<close>

definition store_navigation ::
  "(string \<Rightarrow> 'f option) \<Rightarrow> 'f NavigationData option \<Rightarrow> string \<Rightarrow> 'f NavigationData option" where
  "store_navigation float_of latest nav_message =
     (case parse_navigation float_of nav_message of
        None \<Rightarrow> latest
      | Some nav_data \<Rightarrow> Some nav_data)"

text \<open>
  What the specification records for data field \<open>k\<close> of a line, counted from 1 after the
  tag: nothing when the line has no such field, or when the field is empty or blank, is
  \<open>UNDEF\<close> in any case, or is rejected by \<^verbatim>\<open>float\<close>; its float otherwise.
\<close>

definition recorded :: "(string \<Rightarrow> 'f option) \<Rightarrow> string \<Rightarrow> nat \<Rightarrow> 'f option" where
  "recorded float_of nav_message k =
     (let ds = data_fields nav_message
      in if k = 0 \<or> length ds < k then None
         else (let v = ds ! (k - 1)
               in if v = [] \<or> strip v = [] \<or> upper v = ''UNDEF'' then None
                  else float_of v))"

text \<open>
  A stand-in for \<^verbatim>\<open>float\<close> on the sample telegrams: it reads plain decimal digits and
  rejects everything else.
\<close>

definition is_digit :: "char \<Rightarrow> bool" where
  "is_digit ch = (let n = (of_char ch :: nat) in 48 \<le> n \<and> n \<le> 57)"

definition digits_float :: "string \<Rightarrow> real option" where
  "digits_float s =
     (if s \<noteq> [] \<and> list_all is_digit s
      then Some (real (foldl (\<lambda>acc ch. 10 * acc + (of_char ch - 48)) 0 s))
      else None)"

text \<open>A sample snapshot: nothing known but an altitude of 7 m.\<close>

definition frame0 :: "real NavigationData" where
  "frame0 =
     \<lparr>latitude = None, longitude = None, sigmapos = None, depth = None, altitude = Some 7,
      seabed = None, north_speed = None, east_speed = None, down_speed = None,
      up_speed = None, u_speed = None, v_speed = None, w_speed = None,
      water_north_speed = None, water_east_speed = None, water_down_speed = None,
      water_up_speed = None, water_u_speed = None, water_v_speed = None,
      water_w_speed = None, current_north_speed = None, current_east_speed = None,
      heading = None, roll = None, pitch = None, yaw_rate = None, roll_rate = None,
      pitch_rate = None, nav_p = None, nav_q = None, nav_r = None, ax = None, ay = None,
      az = None\<rparr>"

subsection \<open>A wait has a start time\<close>

text \<open>In WAIT the time at which the wait began is recorded.\<close>

definition timed :: "DepthController \<Rightarrow> bool" where
  "timed c \<longleftrightarrow> (state c = WAIT \<longrightarrow> state_start_time c \<noteq> None)"

section \<open>Properties\<close>

subsection \<open>Properties of \<^verbatim>\<open>send_z_command\<close>\<close>

text \<open>
  The gate \<^verbatim>\<open>z_value < min_depth or z_value > max_depth\<close> is the complement of the envelope
  for every float but NaN.
\<close>

lemma gate_iff_outside:
  "z \<noteq> NaN \<Longrightarrow>
   (float_less z (Finite (min_depth cfg)) \<or> float_less (Finite (max_depth cfg)) z) \<longleftrightarrow>
     \<not> float_in_envelope cfg z"
  by (cases z) (auto simp: float_in_envelope_def in_envelope_def)

text \<open>
  For every float other than NaN the three cases are as intended: a depth inside the
  envelope is stored and sent; a depth outside is replaced by the stored one; and with
  nothing stored the call fails without sending.
\<close>

lemma send_z_command_number:
  assumes "z \<noteq> NaN"
  shows "(float_in_envelope cfg z \<longrightarrow>
      send_z_command cfg ok lv z = \<lparr>success = ok, posted = Some z, last_valid_depth = Some z\<rparr>) \<and>
   (\<not> float_in_envelope cfg z \<and> lv = Some v \<longrightarrow>
      send_z_command cfg ok lv z = \<lparr>success = ok, posted = Some v, last_valid_depth = Some v\<rparr>) \<and>
   (\<not> float_in_envelope cfg z \<and> lv = None \<longrightarrow>
      send_z_command cfg ok lv z = \<lparr>success = False, posted = None, last_valid_depth = None\<rparr>)"
  using gate_iff_outside [OF assms, of cfg] by (auto simp: send_z_command_def)

lemma send_all_numbers_in_envelope:
  "(\<And>v. lv = Some v \<Longrightarrow> float_in_envelope cfg v) \<Longrightarrow> NaN \<notin> fst ` set calls \<Longrightarrow>
   v \<in> set (send_all cfg lv calls) \<Longrightarrow> float_in_envelope cfg v"
proof (induction calls arbitrary: lv)
  case Nil
  then show ?case by simp
next
  case (Cons a calls)
  obtain z ok where a: "a = (z, ok)" by (cases a)
  have z: "z \<noteq> NaN" using Cons.prems(2) a by auto
  let ?r = "send_z_command cfg ok lv z"
  note g = gate_iff_outside [OF z, of cfg]
  have inv': "\<And>w. last_valid_depth ?r = Some w \<Longrightarrow> float_in_envelope cfg w"
    using Cons.prems(1) g by (auto simp: send_z_command_def split: if_splits option.splits)
  have here: "\<And>w. posted ?r = Some w \<Longrightarrow> float_in_envelope cfg w"
    using Cons.prems(1) g by (auto simp: send_z_command_def split: if_splits option.splits)
  have rest: "NaN \<notin> fst ` set calls" using Cons.prems(2) by auto
  from Cons.prems(3) a
  have "(\<exists>w. posted ?r = Some w \<and> v = w) \<or> v \<in> set (send_all cfg (last_valid_depth ?r) calls)"
    by (auto simp: Let_def split: option.splits)
  then show ?case
    using here Cons.IH [OF inv' rest] by blast
qed

text \<open>
  C3: the code departs from the cases at NaN. NaN lies outside the envelope, but both
  comparisons of the gate are false for it, so whatever is stored in
  \<open>last_valid_depth\<close>, and also when nothing is stored, NaN is sent and becomes the last
  valid depth.
\<close>

theorem send_z_command_nan:
  "\<not> float_in_envelope cfg NaN \<and>
   send_z_command cfg ok lv NaN = \<lparr>success = ok, posted = Some NaN, last_valid_depth = Some NaN\<rparr>"
  by (simp add: send_z_command_def float_in_envelope_def)

text \<open>
  C10: the setpoints that are POSTed do not all lie in the envelope. After a valid 50 m, a
  NaN is sent, replaces the stored depth, and is sent again in place of the
  out-of-envelope 120 m that follows.
\<close>

theorem send_all_posts_nan:
  "send_all cfg0 None [(Finite 50, True), (NaN, True), (Finite 120, True)] = [Finite 50, NaN, NaN] \<and>
   \<not> float_in_envelope cfg0 NaN"
  by (simp add: send_z_command_def float_in_envelope_def cfg0_def)

subsection \<open>The safety automaton\<close>

lemmas tick_defs = update_def tick_def update_step_transition_def handle_transitions_def
  execute_current_state_def state_normal_def state_hold_def state_ascend_def state_wait_def
  state_return_def advance_vs_def set_state_def on_enter_state_def wait_finished_def
  return_caught_vs_def clamp_depth_def Let_def

lemma state_set_state [simp]: "state (set_state c s now) = s"
  by (cases s) (simp_all add: set_state_def on_enter_state_def Let_def)

text \<open>
  C2: for every current state and every altitude input, the state after
  \<^verbatim>\<open>_handle_transitions\<close> is the one the priority-ordered rules give: absent altitude
  outside NORMAL leads to NORMAL; else altitude below the ascend threshold leads to ASCEND
  from any state; else a downward trajectory with altitude below the level threshold leads
  to HOLD; otherwise ASCEND and HOLD go to WAIT, WAIT goes to RETURN iff
  \<open>now - state_start_time \<ge> wait_time\<close> (and stays WAIT otherwise, also when no start
  time is recorded), RETURN goes to NORMAL iff \<open>command_depth \<ge> current_z\<close>, and NORMAL
  stays NORMAL.
\<close>

theorem handle_transitions_state:
  "state (handle_transitions c A now) =
     spec_transition (state c) A (altitude_threshold_ascend c) (altitude_threshold_level c)
       (trajectory_down c)
       (case state_start_time c of None \<Rightarrow> False | Some t \<Rightarrow> now - t \<ge> wait_time c)
       (command_depth c \<ge> current_z c)"
  by (cases "state c"; cases A)
     (simp_all add: handle_transitions_def spec_transition_def below_def wait_finished_def
        return_caught_vs_def)

text \<open>
  C9 (as the code has it): for every transition into a new state, entering ASCEND sets
  \<open>command_depth := current_z\<close> and clears \<open>state_start_time\<close>; entering HOLD clears
  \<open>state_start_time\<close>; entering WAIT sets \<open>state_start_time := now\<close> and
  \<open>wait_from_ascend := (previous state = ASCEND)\<close>; entering NORMAL clears
  \<open>state_start_time\<close>; entering RETURN changes nothing but the state, so
  \<open>state_start_time\<close> keeps the time at which WAIT was entered.
\<close>

theorem set_state_entry_actions:
  "state c \<noteq> s \<Longrightarrow>
   set_state c s now =
     (case s of
        ASCEND \<Rightarrow> c\<lparr>state := ASCEND, state_start_time := None, command_depth := current_z c\<rparr>
      | HOLD \<Rightarrow> c\<lparr>state := HOLD, state_start_time := None\<rparr>
      | WAIT \<Rightarrow> c\<lparr>state := WAIT, state_start_time := Some now,
                     wait_from_ascend := (state c = ASCEND)\<rparr>
      | RETURN \<Rightarrow> c\<lparr>state := RETURN\<rparr>
      | NORMAL \<Rightarrow> c\<lparr>state := NORMAL, state_start_time := None\<rparr>)"
  by (cases s) (simp_all add: set_state_def on_enter_state_def Let_def)

theorem set_state_entry_actions_witness:
  "set_state ((init cfg0 10 20 (1/5) 1 True (1/5))\<lparr>state := WAIT, state_start_time := Some 1\<rparr>) RETURN 4 =
     (init cfg0 10 20 (1/5) 1 True (1/5))\<lparr>state := RETURN, state_start_time := Some 1\<rparr> \<and>
   set_state (init cfg0 10 20 (1/5) 1 True (1/5)) ASCEND 0 =
     (init cfg0 10 20 (1/5) 1 True (1/5))\<lparr>state := ASCEND, state_start_time := None, command_depth := 10\<rparr>"
  using set_state_entry_actions
      [of "(init cfg0 10 20 (1/5) 1 True (1/5))\<lparr>state := WAIT, state_start_time := Some 1\<rparr>" RETURN 4]
    set_state_entry_actions [of "init cfg0 10 20 (1/5) 1 True (1/5)" ASCEND 0]
  by (simp add: init_def)

text \<open>
  The clause of the specification for RETURN does not hold: a controller that ascends, waits and then enters
  RETURN still carries the start time of its wait.
\<close>

theorem enter_return_keeps_start_time:
  "state (run cfg0 (init cfg0 10 20 (1/5) 1 True (1/5)) [(Some 2, 0), (Some 8, 1)]) = WAIT \<and>
   state (run cfg0 (init cfg0 10 20 (1/5) 1 True (1/5)) [(Some 2, 0), (Some 8, 1), (Some 8, 4)]) = RETURN \<and>
   state_start_time (run cfg0 (init cfg0 10 20 (1/5) 1 True (1/5)) [(Some 2, 0), (Some 8, 1), (Some 8, 4)]) = Some 1"
  by (simp add: init_def cfg0_def tick_defs)

subsection \<open>What each part of a tick leaves unchanged\<close>

lemma update_step_transition_fields [simp]:
  "current_z (update_step_transition c) = current_z c"
  "end_z (update_step_transition c) = end_z c"
  "end_z_reached (update_step_transition c) = end_z_reached c"
  "command_depth (update_step_transition c) = command_depth c"
  "state (update_step_transition c) = state c"
  "state_start_time (update_step_transition c) = state_start_time c"
  "wait_from_ascend (update_step_transition c) = wait_from_ascend c"
  "trajectory_down (update_step_transition c) = trajectory_down c"
  "max_angle_step (update_step_transition c) = max_angle_step c"
  "altitude_threshold_level (update_step_transition c) = altitude_threshold_level c"
  "altitude_threshold_ascend (update_step_transition c) = altitude_threshold_ascend c"
  "wait_time (update_step_transition c) = wait_time c"
  "planned_z (update_step_transition c) = planned_z c"
  "original_target_step (update_step_transition c) = original_target_step c"
  "transition_list (update_step_transition c) = transition_list c"
  by (simp_all add: update_step_transition_def calculate_error_compensation_def Let_def
      split: list.split)

lemma set_state_fields [simp]:
  "current_z (set_state c s now) = current_z c"
  "end_z (set_state c s now) = end_z c"
  "end_z_reached (set_state c s now) = end_z_reached c"
  "trajectory_down (set_state c s now) = trajectory_down c"
  "max_angle_step (set_state c s now) = max_angle_step c"
  "altitude_threshold_level (set_state c s now) = altitude_threshold_level c"
  "altitude_threshold_ascend (set_state c s now) = altitude_threshold_ascend c"
  "wait_time (set_state c s now) = wait_time c"
  "current_step (set_state c s now) = current_step c"
  "target_step (set_state c s now) = target_step c"
  "planned_z (set_state c s now) = planned_z c"
  "original_target_step (set_state c s now) = original_target_step c"
  "transition_list (set_state c s now) = transition_list c"
  "step_iterator (set_state c s now) = step_iterator c"
  "step_transition_active (set_state c s now) = step_transition_active c"
  "error_compensation_active (set_state c s now) = error_compensation_active c"
  by (cases s; simp add: set_state_def on_enter_state_def Let_def)+

lemma handle_transitions_fields [simp]:
  "current_z (handle_transitions c A now) = current_z c"
  "end_z (handle_transitions c A now) = end_z c"
  "end_z_reached (handle_transitions c A now) = end_z_reached c"
  "trajectory_down (handle_transitions c A now) = trajectory_down c"
  "max_angle_step (handle_transitions c A now) = max_angle_step c"
  "altitude_threshold_level (handle_transitions c A now) = altitude_threshold_level c"
  "altitude_threshold_ascend (handle_transitions c A now) = altitude_threshold_ascend c"
  "wait_time (handle_transitions c A now) = wait_time c"
  "current_step (handle_transitions c A now) = current_step c"
  "target_step (handle_transitions c A now) = target_step c"
  "planned_z (handle_transitions c A now) = planned_z c"
  "original_target_step (handle_transitions c A now) = original_target_step c"
  "transition_list (handle_transitions c A now) = transition_list c"
  "step_iterator (handle_transitions c A now) = step_iterator c"
  "step_transition_active (handle_transitions c A now) = step_transition_active c"
  "error_compensation_active (handle_transitions c A now) = error_compensation_active c"
  by (simp_all add: handle_transitions_def split: option.split)

lemma execute_current_state_fields [simp]:
  "end_z (fst (execute_current_state cfg c now)) = end_z c"
  "trajectory_down (fst (execute_current_state cfg c now)) = trajectory_down c"
  "current_step (fst (execute_current_state cfg c now)) = current_step c"
  "target_step (fst (execute_current_state cfg c now)) = target_step c"
  "planned_z (fst (execute_current_state cfg c now)) = planned_z c"
  "original_target_step (fst (execute_current_state cfg c now)) = original_target_step c"
  "transition_list (fst (execute_current_state cfg c now)) = transition_list c"
  "step_iterator (fst (execute_current_state cfg c now)) = step_iterator c"
  "step_transition_active (fst (execute_current_state cfg c now)) = step_transition_active c"
  "error_compensation_active (fst (execute_current_state cfg c now)) = error_compensation_active c"
  by (cases "state c";
      simp add: execute_current_state_def state_normal_def state_hold_def state_ascend_def
        state_wait_def state_return_def Let_def)+

lemma advance_vs_fields [simp]:
  "end_z (advance_vs c) = end_z c"
  "trajectory_down (advance_vs c) = trajectory_down c"
  "command_depth (advance_vs c) = command_depth c"
  "state (advance_vs c) = state c"
  "current_step (advance_vs c) = current_step c"
  "target_step (advance_vs c) = target_step c"
  "planned_z (advance_vs c) = planned_z c"
  "original_target_step (advance_vs c) = original_target_step c"
  "transition_list (advance_vs c) = transition_list c"
  "step_iterator (advance_vs c) = step_iterator c"
  "step_transition_active (advance_vs c) = step_transition_active c"
  "error_compensation_active (advance_vs c) = error_compensation_active c"
  by (simp_all add: advance_vs_def Let_def)

text \<open>The tick as a composition of its parts.\<close>

lemma update_unfold:
  "update cfg c A now =
     (let c2 = handle_transitions (update_step_transition c) A now;
          c4 = advance_vs (fst (execute_current_state cfg c2 now))
      in if state c2 = RETURN \<and> \<not> trajectory_down c \<and> current_z c4 \<le> command_depth c4
         then set_state c4 NORMAL now else c4)"
  by (simp add: update_def tick_def Let_def split_beta)

lemma update_end_z [simp]: "end_z (update cfg c A now) = end_z c"
  by (simp add: update_unfold Let_def)

lemma execute_end_inv: "end_inv c \<Longrightarrow> end_inv (fst (execute_current_state cfg c now))"
  by (cases "state c")
     (auto simp: end_inv_def execute_current_state_def state_normal_def state_hold_def
        state_ascend_def state_wait_def state_return_def Let_def)

lemma execute_end_mono: "end_z_reached c \<Longrightarrow> end_z_reached (fst (execute_current_state cfg c now))"
  by (cases "state c")
     (auto simp: execute_current_state_def state_normal_def state_hold_def
        state_ascend_def state_wait_def state_return_def Let_def)

lemma advance_end_inv: "end_inv c \<Longrightarrow> end_inv (advance_vs c)"
  by (auto simp: end_inv_def advance_vs_def Let_def)

lemma advance_end_mono: "end_z_reached c \<Longrightarrow> end_z_reached (advance_vs c)"
  by (auto simp: advance_vs_def Let_def)

lemma update_end_inv: "end_inv c \<Longrightarrow> end_inv (update cfg c A now)"
proof -
  assume inv: "end_inv c"
  let ?c2 = "handle_transitions (update_step_transition c) A now"
  have "end_inv ?c2" using inv by (simp add: end_inv_def)
  then have "end_inv (advance_vs (fst (execute_current_state cfg ?c2 now)))"
    by (intro advance_end_inv execute_end_inv)
  then show ?thesis
    by (simp add: update_unfold Let_def end_inv_def)
qed

lemma update_end_mono: "end_z_reached c \<Longrightarrow> end_z_reached (update cfg c A now)"
proof -
  assume r: "end_z_reached c"
  let ?c2 = "handle_transitions (update_step_transition c) A now"
  have "end_z_reached ?c2" using r by simp
  then have "end_z_reached (advance_vs (fst (execute_current_state cfg ?c2 now)))"
    by (intro advance_end_mono execute_end_mono)
  then show ?thesis
    by (simp add: update_unfold Let_def)
qed

lemma run_end_z [simp]: "end_z (run cfg c ticks) = end_z c"
  by (induction ticks arbitrary: c) auto

lemma run_end_inv: "end_inv c \<Longrightarrow> end_inv (run cfg c ticks)"
  by (induction ticks arbitrary: c) (auto simp: update_end_inv)

lemma run_end_mono: "end_z_reached c \<Longrightarrow> end_z_reached (run cfg c ticks)"
  by (induction ticks arbitrary: c) (auto simp: update_end_mono)

lemma init_end_inv: "end_inv (init cfg sz ez st mas down prev)"
  by (simp add: end_inv_def init_def)

text \<open>
  C6: for every controller reached from its construction by any sequence of ticks, once
  \<open>end_z_reached\<close> is true it stays true and \<open>current_z\<close> equals \<open>end_z\<close> after every
  later tick, whatever the altitudes and whatever safety states those ticks pass through.
\<close>

theorem end_z_reached_stable:
  assumes "c = run cfg (init cfg start_z ez st mas down prev) ticks1"
    and "end_z_reached c"
  shows "end_z_reached (run cfg c ticks2) \<and> current_z (run cfg c ticks2) = ez"
proof -
  have "end_inv c" using assms(1) by (simp add: run_end_inv init_end_inv)
  then have "end_inv (run cfg c ticks2)" by (rule run_end_inv)
  moreover have "end_z_reached (run cfg c ticks2)" using assms(2) by (rule run_end_mono)
  moreover have "end_z (run cfg c ticks2) = ez" using assms(1) by (simp add: init_def)
  ultimately show ?thesis by (simp add: end_inv_def)
qed

theorem end_z_reached_stable_witness:
  "end_z_reached (run cfg0 (init cfg0 10 20 5 1 True 5) [(Some 8, 0), (Some 8, 1)]) \<and>
   end_z_reached (run cfg0 (run cfg0 (init cfg0 10 20 5 1 True 5) [(Some 8, 0), (Some 8, 1)])
     [(Some 2, 2), (None, 3)]) \<and>
   current_z (run cfg0 (run cfg0 (init cfg0 10 20 5 1 True 5) [(Some 8, 0), (Some 8, 1)])
     [(Some 2, 2), (None, 3)]) = 20"
proof -
  have r: "end_z_reached (run cfg0 (init cfg0 10 20 5 1 True 5) [(Some 8, 0), (Some 8, 1)])"
    by (simp add: init_def cfg0_def tick_defs)
  show ?thesis
    using r end_z_reached_stable [OF refl r, of "[(Some 2, 2), (None, 3)]"] by simp
qed

subsection \<open>The commanded depth and the envelope\<close>

lemma clamp_depth_in_envelope:
  "min_depth cfg \<le> max_depth cfg \<Longrightarrow> in_envelope cfg (clamp_depth cfg d)"
  by (auto simp: in_envelope_def clamp_depth_def)

lemma execute_sent: "snd (execute_current_state cfg c now) = command_depth (fst (execute_current_state cfg c now))"
  by (cases "state c")
     (auto simp: execute_current_state_def state_normal_def state_hold_def state_ascend_def
        state_wait_def state_return_def set_state_def on_enter_state_def Let_def)

lemma execute_clamping_states:
  "min_depth cfg \<le> max_depth cfg \<Longrightarrow>
   state c = ASCEND \<or> (state c = WAIT \<and> wait_from_ascend c) \<Longrightarrow>
   in_envelope cfg (command_depth (fst (execute_current_state cfg c now)))"
  by (auto simp: execute_current_state_def state_ascend_def state_wait_def Let_def
      clamp_depth_in_envelope)

lemma execute_envelope_preserved:
  "min_depth cfg \<le> max_depth cfg \<Longrightarrow> in_envelope cfg (command_depth c) \<Longrightarrow>
   in_envelope cfg (current_z c) \<Longrightarrow> in_envelope cfg (end_z c) \<Longrightarrow>
   in_envelope cfg (command_depth (fst (execute_current_state cfg c now)))"
  by (cases "state c")
     (auto simp: execute_current_state_def state_normal_def state_hold_def state_ascend_def
        state_wait_def state_return_def set_state_def on_enter_state_def Let_def
        clamp_depth_in_envelope)

lemma set_state_command_depth:
  "command_depth (set_state c s now) = (if s = ASCEND \<and> state c \<noteq> ASCEND then current_z c else command_depth c)"
  by (cases s) (simp_all add: set_state_def on_enter_state_def Let_def)

lemma handle_transitions_envelope:
  "in_envelope cfg (command_depth c) \<Longrightarrow> in_envelope cfg (current_z c) \<Longrightarrow>
   in_envelope cfg (command_depth (handle_transitions c A now))"
  by (auto simp: handle_transitions_def set_state_command_depth split: option.split)

lemma update_command_depth:
  "command_depth (update cfg c A now) =
     command_depth (fst (execute_current_state cfg (entering c A now) now))"
  by (simp add: update_unfold Let_def entering_def set_state_command_depth)

lemma tick_sent: "snd (tick cfg c A now) = command_depth (update cfg c A now)"
  unfolding update_command_depth
  by (simp add: tick_def Let_def split_beta execute_sent entering_def)

text \<open>
  C1 (as the code has it): with \<open>min_depth \<le> max_depth\<close>, on every tick the depth sent
  is the stored \<open>command_depth\<close>; it lies in the envelope whenever the tick executes
  ASCEND or a WAIT entered from ASCEND, the states that clamp; and in every state it lies
  in the envelope whenever the previous \<open>command_depth\<close>, the planned depth \<open>current_z\<close>
  and \<open>end_z\<close> do. NORMAL sends \<open>current_z\<close> or \<open>end_z\<close> as they are and a downward
  RETURN snaps to \<open>current_z\<close>; the envelope is enforced where the command is sent.
\<close>

theorem command_depth_envelope:
  assumes "min_depth cfg \<le> max_depth cfg"
  shows "snd (tick cfg c A now) = command_depth (update cfg c A now) \<and>
    (state (entering c A now) = ASCEND \<or>
       (state (entering c A now) = WAIT \<and> wait_from_ascend (entering c A now)) \<longrightarrow>
     in_envelope cfg (command_depth (update cfg c A now))) \<and>
    (in_envelope cfg (command_depth c) \<and> in_envelope cfg (current_z c) \<and> in_envelope cfg (end_z c) \<longrightarrow>
     in_envelope cfg (command_depth (update cfg c A now)))"
proof (intro conjI impI)
  show "snd (tick cfg c A now) = command_depth (update cfg c A now)" by (rule tick_sent)
next
  assume "state (entering c A now) = ASCEND \<or>
       (state (entering c A now) = WAIT \<and> wait_from_ascend (entering c A now))"
  then show "in_envelope cfg (command_depth (update cfg c A now))"
    unfolding update_command_depth by (rule execute_clamping_states [OF assms])
next
  assume a: "in_envelope cfg (command_depth c) \<and> in_envelope cfg (current_z c) \<and> in_envelope cfg (end_z c)"
  have "in_envelope cfg (command_depth (entering c A now))"
    unfolding entering_def using a by (intro handle_transitions_envelope) simp_all
  moreover have "in_envelope cfg (current_z (entering c A now))" "in_envelope cfg (end_z (entering c A now))"
    using a by (simp_all add: entering_def)
  ultimately show "in_envelope cfg (command_depth (update cfg c A now))"
    unfolding update_command_depth by (intro execute_envelope_preserved [OF assms])
qed

theorem command_depth_envelope_witness:
  "min_depth cfg0 \<le> max_depth cfg0 \<and>
   state (entering (init cfg0 10 20 (1/5) 1 True (1/5)) (Some 2) 0) = ASCEND \<and>
   snd (tick cfg0 (init cfg0 10 20 (1/5) 1 True (1/5)) (Some 2) 0) = 9 \<and>
   in_envelope cfg0 (command_depth (update cfg0 (init cfg0 10 20 (1/5) 1 True (1/5)) (Some 2) 0)) \<and>
   in_envelope cfg0 (command_depth (update cfg0 (init cfg0 10 20 (1/5) 1 True (1/5)) (Some 8) 0))"
proof -
  have m: "min_depth cfg0 \<le> max_depth cfg0" by (simp add: cfg0_def)
  have s: "state (entering (init cfg0 10 20 (1/5) 1 True (1/5)) (Some 2) 0) = ASCEND"
    by (simp add: entering_def init_def cfg0_def tick_defs)
  have e: "in_envelope cfg0 (command_depth (init cfg0 10 20 (1/5) 1 True (1/5))) \<and>
      in_envelope cfg0 (current_z (init cfg0 10 20 (1/5) 1 True (1/5))) \<and>
      in_envelope cfg0 (end_z (init cfg0 10 20 (1/5) 1 True (1/5)))"
    by (simp add: in_envelope_def init_def cfg0_def)
  have v: "snd (tick cfg0 (init cfg0 10 20 (1/5) 1 True (1/5)) (Some 2) 0) = 9"
    by (simp add: init_def cfg0_def tick_defs)
  show ?thesis
    using m s e v
      command_depth_envelope [OF m, of "init cfg0 10 20 (1/5) 1 True (1/5)" "Some 2" 0]
      command_depth_envelope [OF m, of "init cfg0 10 20 (1/5) 1 True (1/5)" "Some 8" 0]
    by simp
qed

text \<open>
  The envelope is not kept in NORMAL: a leg from 90 m to 120 m under \<open>max_depth = 100\<close> commands
  120 m on its second tick.
\<close>

theorem normal_emits_beyond_envelope:
  "state (run cfg0 (init cfg0 90 120 20 1 True 20) [(Some 8, 0), (Some 8, 1)]) = NORMAL \<and>
   command_depth (run cfg0 (init cfg0 90 120 20 1 True 20) [(Some 8, 0), (Some 8, 1)]) = 120 \<and>
   max_depth cfg0 = 100 \<and>
   \<not> (min_depth cfg0 \<le> command_depth (run cfg0 (init cfg0 90 120 20 1 True 20) [(Some 8, 0), (Some 8, 1)]) \<and>
      command_depth (run cfg0 (init cfg0 90 120 20 1 True 20) [(Some 8, 0), (Some 8, 1)]) \<le> max_depth cfg0)"
  by (simp add: init_def cfg0_def tick_defs)

subsection \<open>Continuity of the step across controllers\<close>

text \<open>What the tick does to the step schedule is the work of its first part.\<close>

lemma update_step_fields:
  "current_step (update cfg c A now) = current_step (update_step_transition c)"
  "step_transition_active (update cfg c A now) = step_transition_active (update_step_transition c)"
  "error_compensation_active (update cfg c A now) = error_compensation_active (update_step_transition c)"
  "original_target_step (update cfg c A now) = original_target_step c"
  "planned_z (update cfg c A now) = planned_z c"
  "transition_list (update cfg c A now) = transition_list c"
  by (simp_all add: update_unfold Let_def)

lemma linspace_first: "n \<ge> 1 \<Longrightarrow> \<exists>rest. linspace p s n = p # rest"
  by (cases "n = 1") (auto simp: linspace_def upt_conv_Cons)

lemma init_first_tick:
  assumes "transition_time cfg \<ge> 1 \<or> p = st"
  shows "current_step (update cfg (init cfg sz ez st mas down p) A now) = p"
proof (cases "p = st")
  case True
  then show ?thesis by (simp add: update_step_fields update_step_transition_def init_def)
next
  case False
  then have "transition_time cfg \<ge> 1" using assms by simp
  then obtain rest where "linspace p st (transition_time cfg) = p # rest"
    using linspace_first by blast
  then show ?thesis using False
    by (simp add: update_step_fields update_step_transition_def init_def)
qed

text \<open>
  C7 (as the code has it): whenever the VS loop is left, by an error or by cancellation,
  with a manager present, the \<^verbatim>\<open>finally\<close> block sets \<open>manager.last_step\<close> to the
  departing controller's \<open>current_step\<close>; a controller constructed with that value as
  \<open>previous_step\<close> has it as \<open>current_step\<close> right after construction, and keeps it
  through its first tick provided \<open>transition_time \<ge> 1\<close> (the value is then the first
  element of the transition sequence) or the value equals the new step (no transition).
\<close>

theorem step_continuity:
  assumes "virtual_slope_loop cfg plan distance previous_step (Some m) events = Some (exit, a, m')"
    and "exit \<noteq> StillRunning"
  shows "m' = Some (m\<lparr>last_step := current_step a\<rparr>) \<and>
    current_step (init cfg sz ez st mas down (current_step a)) = current_step a \<and>
    (transition_time cfg \<ge> 1 \<or> current_step a = st \<longrightarrow>
       current_step (update cfg (init cfg sz ez st mas down (current_step a)) A now) = current_step a)"
proof -
  have "m' = Some (m\<lparr>last_step := current_step a\<rparr>)"
    using assms
    by (auto simp: virtual_slope_loop_def Let_def split: option.splits prod.splits if_splits)
  moreover have "current_step (init cfg sz ez st mas down (current_step a)) = current_step a"
    by (simp add: init_def)
  ultimately show ?thesis using init_first_tick by blast
qed

lemma iterations_ticks:
  "iterations cfg c (map (\<lambda>(A, now). Tick A now) ticks @ [Cancel]) = (ExitCancelled, run cfg c ticks)"
  by (induction ticks arbitrary: c) auto

theorem step_continuity_witness:
  "virtual_slope_loop cfg0 plan0 50 0 (Some \<lparr>last_step = 0\<rparr>)
      [Tick (Some 8) 0, Tick (Some 8) 1, Cancel] =
     Some (ExitCancelled,
           run cfg0 (init cfg0 10 20 (1/5) (1/2) True 0) [(Some 8, 0), (Some 8, 1)],
           Some \<lparr>last_step = 1/20\<rparr>) \<and>
   current_step (run cfg0 (init cfg0 10 20 (1/5) (1/2) True 0)
      [(Some 8, 0), (Some 8, 1)]) = 1/20 \<and>
   current_step (init cfg0 10 20 (1/5) 1 True (1/20)) = 1/20 \<and>
   current_step (update cfg0 (init cfg0 10 20 (1/5) 1 True (1/20)) (Some 8) 2) = 1/20"
proof -
  define a where "a = run cfg0 (init cfg0 10 20 (1/5) (1/2) True 0)
      [(Some 8, 0), (Some 8, 1)]"
  define b where "b = init cfg0 10 20 (1/5) 1 True (1/20)"
  have l: "linspace 0 (1/5) 5 = [0, 1/20, 1/10, 3/20, 1/5]"
    by (simp add: linspace_def upt_conv_Cons)
  have cs: "current_step a = 1/20"
    unfolding a_def using l by (simp add: init_def cfg0_def tick_defs)
  have it: "iterations cfg0 (init cfg0 10 20 (1/5) (1/2) True 0)
      [Tick (Some 8) 0, Tick (Some 8) 1, Cancel] = (ExitCancelled, a)"
    using iterations_ticks [of cfg0 _ "[(Some 8, 0), (Some 8, 1)]"] by (simp add: a_def)
  have st: "calculate_step cfg0 10 20 1 50 = Some (1/5)"
    by (simp add: calculate_step_def cfg0_def)
  have pl: "START_Z plan0 = 10" "END_Z plan0 = 20" "SPEED plan0 = 1"
    "max_angle cfg0 = 30" "command_period cfg0 = 1"
    by (simp_all add: plan0_def cfg0_def)
  have sn: "sin (30 * pi / 180) = (1/2::real)"
    using sin_30 by simp
  have loop: "virtual_slope_loop cfg0 plan0 50 0 (Some \<lparr>last_step = 0\<rparr>)
      [Tick (Some 8) 0, Tick (Some 8) 1, Cancel] =
     Some (ExitCancelled, a, Some \<lparr>last_step = 1/20\<rparr>)"
    unfolding virtual_slope_loop_def pl sn st
    by (simp add: Let_def it cs del: iterations.simps)
  have ne: "ExitCancelled \<noteq> StillRunning" by simp
  have t: "transition_time cfg0 \<ge> 1 \<or> current_step a = 1/5" by (simp add: cfg0_def)
  have "current_step (init cfg0 10 20 (1/5) 1 True (current_step a)) = current_step a \<and>
      current_step (update cfg0 (init cfg0 10 20 (1/5) 1 True (current_step a)) (Some 8) 2) = current_step a"
    using step_continuity [OF loop ne, of 10 20 "1/5" 1 True "Some 8" 2] t by blast
  then have "virtual_slope_loop cfg0 plan0 50 0 (Some \<lparr>last_step = 0\<rparr>)
      [Tick (Some 8) 0, Tick (Some 8) 1, Cancel] =
     Some (ExitCancelled, a, Some \<lparr>last_step = 1/20\<rparr>) \<and>
     current_step a = 1/20 \<and>
     current_step (init cfg0 10 20 (1/5) 1 True (1/20)) = 1/20 \<and>
     current_step (update cfg0 (init cfg0 10 20 (1/5) 1 True (1/20)) (Some 8) 2) = 1/20"
    using loop cs by simp
  then show ?thesis unfolding a_def .
qed

text \<open>
  The first tick does not keep the previous step for \<open>transition_time = 0\<close>: the transition sequence
  is empty, and the first tick replaces the previous step by the target step.
\<close>

theorem first_tick_skips_previous_step:
  "current_step (init (cfg0\<lparr>transition_time := 0\<rparr>) 10 20 (1/5) 1 True 0) = 0 \<and>
   transition_list (init (cfg0\<lparr>transition_time := 0\<rparr>) 10 20 (1/5) 1 True 0) = [] \<and>
   current_step (update (cfg0\<lparr>transition_time := 0\<rparr>)
      (init (cfg0\<lparr>transition_time := 0\<rparr>) 10 20 (1/5) 1 True 0) (Some 8) 0) = 1/5"
  by (simp add: init_def cfg0_def linspace_def tick_defs calculate_error_compensation_def)

subsection \<open>Navigation telegrams\<close>

lemma length_split_on: "length (split_on sep s) = Suc (length (filter (\<lambda>ch. ch = sep) s))"
  by (induction s) (auto split: list.splits)

lemma telegram_fields_tag: "\<exists>tag. telegram_fields msg = tag # data_fields msg"
proof -
  have "length (telegram_fields msg) > 0"
    unfolding telegram_fields_def Let_def by (simp add: length_split_on)
  then show ?thesis by (cases "telegram_fields msg") (auto simp: data_fields_def)
qed

lemma field_recorded:
  "telegram_fields msg = tag # data_fields msg \<Longrightarrow> k > 0 \<Longrightarrow>
   field float_of (telegram_fields msg) k = recorded float_of msg k"
  by (cases k) (auto simp: field_def recorded_def safe_float_def Let_def)

text \<open>
  C8 (as the code has it): for every \<^verbatim>\<open>$NAVIGATION\<close> line, a frame is published to the
  store iff the line, with its checksum cut off, carries at least 9 data fields after the
  tag (10 comma-separated pieces, the tag included). Each of the 34 fields of the published
  frame holds what is recorded for the data field of its number, data field 5 for the
  altitude and data field 23 for the heading among them: a data field that is missing,
  empty, the literal \<open>UNDEF\<close> in any case, or rejected by \<^verbatim>\<open>float\<close> is recorded as absent.
  A published frame replaces the stored snapshot, whatever its fields hold; a line with
  fewer than 9 data fields is dropped and leaves the stored snapshot unchanged.
\<close>

theorem navigation_publish:
  "parse_navigation float_of msg =
     (if length (data_fields msg) \<ge> 9 then
        Some \<lparr>latitude = recorded float_of msg 1,
              longitude = recorded float_of msg 2,
              sigmapos = recorded float_of msg 3,
              depth = recorded float_of msg 4,
              altitude = recorded float_of msg 5,
              seabed = recorded float_of msg 6,
              north_speed = recorded float_of msg 7,
              east_speed = recorded float_of msg 8,
              down_speed = recorded float_of msg 9,
              up_speed = recorded float_of msg 10,
              u_speed = recorded float_of msg 11,
              v_speed = recorded float_of msg 12,
              w_speed = recorded float_of msg 13,
              water_north_speed = recorded float_of msg 14,
              water_east_speed = recorded float_of msg 15,
              water_down_speed = recorded float_of msg 16,
              water_up_speed = recorded float_of msg 17,
              water_u_speed = recorded float_of msg 18,
              water_v_speed = recorded float_of msg 19,
              water_w_speed = recorded float_of msg 20,
              current_north_speed = recorded float_of msg 21,
              current_east_speed = recorded float_of msg 22,
              heading = recorded float_of msg 23,
              roll = recorded float_of msg 24,
              pitch = recorded float_of msg 25,
              yaw_rate = recorded float_of msg 26,
              roll_rate = recorded float_of msg 27,
              pitch_rate = recorded float_of msg 28,
              nav_p = recorded float_of msg 29,
              nav_q = recorded float_of msg 30,
              nav_r = recorded float_of msg 31,
              ax = recorded float_of msg 32,
              ay = recorded float_of msg 33,
              az = recorded float_of msg 34\<rparr>
      else None) \<and>
   store_navigation float_of latest msg =
     (if length (data_fields msg) \<ge> 9 then parse_navigation float_of msg else latest) \<and>
   (\<forall>k. 1 \<le> k \<and> k \<le> length (data_fields msg) \<and>
        (data_fields msg ! (k - 1) = [] \<or> upper (data_fields msg ! (k - 1)) = ''UNDEF'' \<or>
         float_of (data_fields msg ! (k - 1)) = None) \<longrightarrow>
        recorded float_of msg k = None)"
proof -
  obtain tag where t: "telegram_fields msg = tag # data_fields msg"
    using telegram_fields_tag by blast
  have len: "length (telegram_fields msg) < 10 \<longleftrightarrow> \<not> 9 \<le> length (data_fields msg)"
    by (subst t) auto
  note f = field_recorded [OF t, of _ float_of]
  have p: "parse_navigation float_of msg = (if length (data_fields msg) \<ge> 9 then
        Some \<lparr>latitude = recorded float_of msg 1,
              longitude = recorded float_of msg 2,
              sigmapos = recorded float_of msg 3,
              depth = recorded float_of msg 4,
              altitude = recorded float_of msg 5,
              seabed = recorded float_of msg 6,
              north_speed = recorded float_of msg 7,
              east_speed = recorded float_of msg 8,
              down_speed = recorded float_of msg 9,
              up_speed = recorded float_of msg 10,
              u_speed = recorded float_of msg 11,
              v_speed = recorded float_of msg 12,
              w_speed = recorded float_of msg 13,
              water_north_speed = recorded float_of msg 14,
              water_east_speed = recorded float_of msg 15,
              water_down_speed = recorded float_of msg 16,
              water_up_speed = recorded float_of msg 17,
              water_u_speed = recorded float_of msg 18,
              water_v_speed = recorded float_of msg 19,
              water_w_speed = recorded float_of msg 20,
              current_north_speed = recorded float_of msg 21,
              current_east_speed = recorded float_of msg 22,
              heading = recorded float_of msg 23,
              roll = recorded float_of msg 24,
              pitch = recorded float_of msg 25,
              yaw_rate = recorded float_of msg 26,
              roll_rate = recorded float_of msg 27,
              pitch_rate = recorded float_of msg 28,
              nav_p = recorded float_of msg 29,
              nav_q = recorded float_of msg 30,
              nav_r = recorded float_of msg 31,
              ax = recorded float_of msg 32,
              ay = recorded float_of msg 33,
              az = recorded float_of msg 34\<rparr>
      else None)"
    unfolding parse_navigation_def Let_def len by (simp add: f)
  have s: "store_navigation float_of latest msg =
     (if length (data_fields msg) \<ge> 9 then parse_navigation float_of msg else latest)"
    unfolding store_navigation_def by (subst (1 2) p) simp
  have a: "\<forall>k. 1 \<le> k \<and> k \<le> length (data_fields msg) \<and>
        (data_fields msg ! (k - 1) = [] \<or> upper (data_fields msg ! (k - 1)) = ''UNDEF'' \<or>
         float_of (data_fields msg ! (k - 1)) = None) \<longrightarrow>
        recorded float_of msg k = None"
    by (auto simp: recorded_def Let_def)
  show ?thesis using p s a by blast
qed

theorem navigation_publish_witness:
  "parse_navigation digits_float ''$NAVIGATION,1,2,3,4,7,UNDEF,,8,x9*4F'' =
     Some \<lparr>latitude = Some 1, longitude = Some 2, sigmapos = Some 3, depth = Some 4,
       altitude = Some 7, seabed = None, north_speed = None, east_speed = Some 8,
       down_speed = None, up_speed = None, u_speed = None, v_speed = None, w_speed = None,
       water_north_speed = None, water_east_speed = None, water_down_speed = None,
       water_up_speed = None, water_u_speed = None, water_v_speed = None,
       water_w_speed = None, current_north_speed = None, current_east_speed = None,
       heading = None, roll = None, pitch = None, yaw_rate = None, roll_rate = None,
       pitch_rate = None, nav_p = None, nav_q = None, nav_r = None, ax = None, ay = None,
       az = None\<rparr> \<and>
   store_navigation digits_float (Some frame0) ''$NAVIGATION,1,2,3,4,7,UNDEF,,8,x9*4F'' =
     parse_navigation digits_float ''$NAVIGATION,1,2,3,4,7,UNDEF,,8,x9*4F'' \<and>
   store_navigation digits_float (Some frame0) ''$NAVIGATION,1,2,3'' = Some frame0 \<and>
   upper (data_fields ''$NAVIGATION,1,2,3,4,7,UNDEF,,8,x9*4F'' ! (6 - 1)) = ''UNDEF'' \<and>
   recorded digits_float ''$NAVIGATION,1,2,3,4,7,UNDEF,,8,x9*4F'' 6 = None"
proof -
  have d: "data_fields ''$NAVIGATION,1,2,3,4,7,UNDEF,,8,x9*4F'' =
      [''1'', ''2'', ''3'', ''4'', ''7'', ''UNDEF'', [], ''8'', ''x9'']"
    by (simp add: data_fields_def telegram_fields_def)
  have s: "data_fields ''$NAVIGATION,1,2,3'' = [''1'', ''2'', ''3'']"
    by (simp add: data_fields_def telegram_fields_def)
  have u: "upper ''UNDEF'' = ''UNDEF''"
    by (simp add: upper_def upper_char_def)
  have r: "recorded digits_float ''$NAVIGATION,1,2,3,4,7,UNDEF,,8,x9*4F'' 1 = Some 1"
    "recorded digits_float ''$NAVIGATION,1,2,3,4,7,UNDEF,,8,x9*4F'' 2 = Some 2"
    "recorded digits_float ''$NAVIGATION,1,2,3,4,7,UNDEF,,8,x9*4F'' 3 = Some 3"
    "recorded digits_float ''$NAVIGATION,1,2,3,4,7,UNDEF,,8,x9*4F'' 4 = Some 4"
    "recorded digits_float ''$NAVIGATION,1,2,3,4,7,UNDEF,,8,x9*4F'' 5 = Some 7"
    "recorded digits_float ''$NAVIGATION,1,2,3,4,7,UNDEF,,8,x9*4F'' 7 = None"
    "recorded digits_float ''$NAVIGATION,1,2,3,4,7,UNDEF,,8,x9*4F'' 8 = Some 8"
    "recorded digits_float ''$NAVIGATION,1,2,3,4,7,UNDEF,,8,x9*4F'' 9 = None"
    unfolding recorded_def d
    by (simp_all add: upper_def upper_char_def strip_def is_space_def digits_float_def is_digit_def)
  have r1: "recorded digits_float ''$NAVIGATION,1,2,3,4,7,UNDEF,,8,x9*4F'' (Suc 0) = Some 1"
    using r(1) by simp
  have far: "\<And>k. k > 9 \<Longrightarrow> recorded digits_float ''$NAVIGATION,1,2,3,4,7,UNDEF,,8,x9*4F'' k = None"
    unfolding recorded_def d by simp
  have six: "1 \<le> (6::nat) \<and> 6 \<le> length (data_fields ''$NAVIGATION,1,2,3,4,7,UNDEF,,8,x9*4F'') \<and>
      (data_fields ''$NAVIGATION,1,2,3,4,7,UNDEF,,8,x9*4F'' ! (6 - 1) = [] \<or>
       upper (data_fields ''$NAVIGATION,1,2,3,4,7,UNDEF,,8,x9*4F'' ! (6 - 1)) = ''UNDEF'' \<or>
       digits_float (data_fields ''$NAVIGATION,1,2,3,4,7,UNDEF,,8,x9*4F'' ! (6 - 1)) = None)"
    unfolding d by (simp add: u)
  note t1 = navigation_publish [of digits_float "''$NAVIGATION,1,2,3,4,7,UNDEF,,8,x9*4F''" "Some frame0"]
  note t2 = navigation_publish [of digits_float "''$NAVIGATION,1,2,3''" "Some frame0"]
  have r6: "recorded digits_float ''$NAVIGATION,1,2,3,4,7,UNDEF,,8,x9*4F'' 6 = None"
    using t1 six by blast
  have l1: "9 \<le> length (data_fields ''$NAVIGATION,1,2,3,4,7,UNDEF,,8,x9*4F'')" unfolding d by simp
  have l2: "\<not> 9 \<le> length (data_fields ''$NAVIGATION,1,2,3'')" unfolding s by simp
  have p: "parse_navigation digits_float ''$NAVIGATION,1,2,3,4,7,UNDEF,,8,x9*4F'' =
     Some \<lparr>latitude = Some 1, longitude = Some 2, sigmapos = Some 3, depth = Some 4,
       altitude = Some 7, seabed = None, north_speed = None, east_speed = Some 8,
       down_speed = None, up_speed = None, u_speed = None, v_speed = None, w_speed = None,
       water_north_speed = None, water_east_speed = None, water_down_speed = None,
       water_up_speed = None, water_u_speed = None, water_v_speed = None,
       water_w_speed = None, current_north_speed = None, current_east_speed = None,
       heading = None, roll = None, pitch = None, yaw_rate = None, roll_rate = None,
       pitch_rate = None, nav_p = None, nav_q = None, nav_r = None, ax = None, ay = None,
       az = None\<rparr>"
    using t1 l1 by (simp add: r r1 r6 far)
  have s1: "store_navigation digits_float (Some frame0) ''$NAVIGATION,1,2,3,4,7,UNDEF,,8,x9*4F'' =
     parse_navigation digits_float ''$NAVIGATION,1,2,3,4,7,UNDEF,,8,x9*4F''"
    using t1 l1 by simp
  have s2: "store_navigation digits_float (Some frame0) ''$NAVIGATION,1,2,3'' = Some frame0"
    using t2 l2 by simp
  have u6: "upper (data_fields ''$NAVIGATION,1,2,3,4,7,UNDEF,,8,x9*4F'' ! (6 - 1)) = ''UNDEF''"
    unfolding d by (simp add: u)
  show ?thesis using p s1 s2 u6 r6 by blast
qed

text \<open>
  The specification asks for ten data fields, and has a malformed line leave the snapshot
  as it is; a line with nine data fields is published, and a line of ten fields none of
  which is a number replaces a stored snapshot by an empty one.
\<close>

theorem nine_fields_and_malformed_lines_are_published:
  "length (data_fields ''$NAVIGATION,1,2,3,4,5,6,7,8,9'') = 9 \<and>
   \<not> (10 \<le> length (data_fields ''$NAVIGATION,1,2,3,4,5,6,7,8,9'')) \<and>
   parse_navigation digits_float ''$NAVIGATION,1,2,3,4,5,6,7,8,9'' \<noteq> None \<and>
   store_navigation digits_float None ''$NAVIGATION,1,2,3,4,5,6,7,8,9'' \<noteq> None \<and>
   length (data_fields ''$NAVIGATION,a,b,c,d,e,f,g,h,i,j'') = 10 \<and>
   altitude frame0 = Some 7 \<and>
   store_navigation digits_float (Some frame0) ''$NAVIGATION,a,b,c,d,e,f,g,h,i,j'' \<noteq> Some frame0"
proof -
  have t: "telegram_fields ''$NAVIGATION,a,b,c,d,e,f,g,h,i,j'' =
      [''$NAVIGATION'', ''a'', ''b'', ''c'', ''d'', ''e'', ''f'', ''g'', ''h'', ''i'', ''j'']"
    by (simp add: telegram_fields_def)
  have a: "field digits_float [''$NAVIGATION'', ''a'', ''b'', ''c'', ''d'', ''e'', ''f'', ''g'', ''h'', ''i'', ''j''] 5 = None"
    by (simp add: field_def safe_float_def digits_float_def is_digit_def)
  have "\<exists>nav. store_navigation digits_float (Some frame0) ''$NAVIGATION,a,b,c,d,e,f,g,h,i,j'' = Some nav \<and>
      altitude nav = None"
    unfolding store_navigation_def parse_navigation_def t Let_def by (simp add: a)
  moreover have "altitude frame0 = Some 7" by (simp add: frame0_def)
  ultimately have m: "store_navigation digits_float (Some frame0) ''$NAVIGATION,a,b,c,d,e,f,g,h,i,j'' \<noteq> Some frame0"
    by auto
  have n: "length (data_fields ''$NAVIGATION,1,2,3,4,5,6,7,8,9'') = 9 \<and>
   \<not> (10 \<le> length (data_fields ''$NAVIGATION,1,2,3,4,5,6,7,8,9'')) \<and>
   parse_navigation digits_float ''$NAVIGATION,1,2,3,4,5,6,7,8,9'' \<noteq> None \<and>
   store_navigation digits_float None ''$NAVIGATION,1,2,3,4,5,6,7,8,9'' \<noteq> None"
    by (simp add: data_fields_def telegram_fields_def parse_navigation_def store_navigation_def Let_def)
  have l: "length (data_fields ''$NAVIGATION,a,b,c,d,e,f,g,h,i,j'') = 10"
    by (simp add: data_fields_def t)
  show ?thesis using n l m \<open>altitude frame0 = Some 7\<close> by blast
qed

subsection \<open>The start time of a wait\<close>

text \<open>
  Every controller reached from its construction that is in WAIT carries the time at which
  it entered WAIT, so the comparison \<open>now - state_start_time \<ge> wait_time\<close> of the
  transition rules is always between two numbers.
\<close>

lemma set_state_timed: "timed c \<Longrightarrow> timed (set_state c s now)"
  by (cases s) (auto simp: timed_def set_state_def on_enter_state_def Let_def)

lemma handle_transitions_timed: "timed c \<Longrightarrow> timed (handle_transitions c A now)"
  by (auto simp: handle_transitions_def set_state_timed split: option.split)

lemma update_step_transition_timed: "timed c \<Longrightarrow> timed (update_step_transition c)"
  by (simp add: timed_def)

lemma execute_timed: "timed c \<Longrightarrow> timed (fst (execute_current_state cfg c now))"
  by (cases "state c")
     (auto simp: execute_current_state_def state_normal_def state_hold_def state_ascend_def
        state_wait_def state_return_def Let_def timed_def set_state_def on_enter_state_def)

lemma advance_vs_timed: "timed c \<Longrightarrow> timed (advance_vs c)"
  by (auto simp: timed_def advance_vs_def Let_def)

lemma update_timed: "timed c \<Longrightarrow> timed (update cfg c A now)"
  by (simp add: update_unfold Let_def set_state_timed advance_vs_timed execute_timed
      handle_transitions_timed update_step_transition_timed)

lemma run_timed: "timed c \<Longrightarrow> timed (run cfg c ticks)"
  by (induction ticks arbitrary: c) (auto simp: update_timed)

lemma wait_has_start_time:
  "state (run cfg (init cfg sz ez st mas down prev) ticks) = WAIT \<Longrightarrow>
   \<exists>t. state_start_time (run cfg (init cfg sz ez st mas down prev) ticks) = Some t"
  using run_timed [of "init cfg sz ez st mas down prev" cfg ticks]
  by (auto simp: timed_def init_def)

end
